theory Spec2Isabelle
  imports Complex_Main "HOL-Library.Sublist"
begin

section \<open>The raymarched height field of shaders/fragment.glsl\<close>

text \<open>
  GLSL \<open>float\<close> values are read as real numbers and \<open>vec3\<close> as triples of them. The
  sea-height function \<open>map\<close> of the shader is built from \<open>sin\<close>, \<open>cos\<close>, \<open>pow\<close> and
  \<open>fract\<close>; the tracing routine only calls it, so it is a parameter \<open>hmap\<close> of the model.
\<close>

type_synonym vec3 = "real \<times> real \<times> real"

definition vadd :: "vec3 \<Rightarrow> vec3 \<Rightarrow> vec3" where
  "vadd a b = (case a of (ax, ay, az) \<Rightarrow> case b of (bx, by, bz) \<Rightarrow> (ax + bx, ay + by, az + bz))"

definition vsub :: "vec3 \<Rightarrow> vec3 \<Rightarrow> vec3" where
  "vsub a b = (case a of (ax, ay, az) \<Rightarrow> case b of (bx, by, bz) \<Rightarrow> (ax - bx, ay - by, az - bz))"

definition vscale :: "vec3 \<Rightarrow> real \<Rightarrow> vec3" where
  "vscale v t = (case v of (x, y, z) \<Rightarrow> (x * t, y * t, z * t))"

text \<open>The point \<open>ori + dir * t\<close> of the ray.\<close>

definition ray :: "vec3 \<Rightarrow> vec3 \<Rightarrow> real \<Rightarrow> vec3" where
  "ray ori dir t = vadd ori (vscale dir t)"

text \<open>The built-in \<open>mix(x, y, a)\<close> is the linear blend \<open>x * (1 - a) + y * a\<close>.\<close>

definition mix :: "real \<Rightarrow> real \<Rightarrow> real \<Rightarrow> real" where
  "mix x y a = x * (1 - a) + y * a"

text \<open>
  A GLSL division by zero yields an undefined value (it does not stop the shader).
  The model returns \<open>None\<close> for it, so that HOL's \<open>x / 0 = 0\<close> never stands in for it.
\<close>

definition glsl_div :: "real \<Rightarrow> real \<Rightarrow> real option" where
  "glsl_div a b = (if b = 0 then None else Some (a / b))"

definition NUM_STEPS :: nat where
  "NUM_STEPS = 8"

text \<open>
  The local variables of \<open>heightMapTracing\<close> that the loop reads and writes. The out
  parameter \<open>p\<close> holds \<open>None\<close> as long as no assignment to it has run.
\<close>

record trace_state =
  tm :: real
  tx :: real
  hm :: real
  hx :: real
  tmid :: real
  p :: "vec3 option"

text \<open>One iteration of the loop body (lines 195 to 204).\<close>

definition trace_step :: "(vec3 \<Rightarrow> real) \<Rightarrow> vec3 \<Rightarrow> vec3 \<Rightarrow> trace_state \<Rightarrow> trace_state option" where
  "trace_step hmap ori dir s =
     (case glsl_div (hm s) (hm s - hx s) of
        None \<Rightarrow> None
      | Some a \<Rightarrow>
          (let tmid' = mix (tm s) (tx s) a;
               p' = ray ori dir tmid';
               hmid = hmap p'
           in if hmid < 0
              then Some (s\<lparr>tx := tmid', hx := hmid, tmid := tmid', p := Some p'\<rparr>)
              else Some (s\<lparr>tm := tmid', hm := hmid, tmid := tmid', p := Some p'\<rparr>)))"

text \<open>The \<open>for\<close> loop run for \<open>n\<close> iterations.\<close>

fun trace_loop :: "(vec3 \<Rightarrow> real) \<Rightarrow> vec3 \<Rightarrow> vec3 \<Rightarrow> nat \<Rightarrow> trace_state \<Rightarrow> trace_state option" where
  "trace_loop hmap ori dir 0 s = Some s"
| "trace_loop hmap ori dir (Suc n) s =
     (case trace_step hmap ori dir s of
        None \<Rightarrow> None
      | Some s' \<Rightarrow> trace_loop hmap ori dir n s')"

text \<open>The state in which the loop is entered (lines 188 to 193).\<close>

definition trace_init :: "(vec3 \<Rightarrow> real) \<Rightarrow> vec3 \<Rightarrow> vec3 \<Rightarrow> trace_state" where
  "trace_init hmap ori dir =
     \<lparr>tm = 0, tx = 1000, hm = hmap (ray ori dir 0), hx = hmap (ray ori dir 1000),
      tmid = 0, p = None\<rparr>"

text \<open>
  \<open>heightMapTracing\<close> returns the distance together with the final content of the out
  parameter; the outer \<open>None\<close> is an undefined result.
\<close>

definition heightMapTracing :: "(vec3 \<Rightarrow> real) \<Rightarrow> vec3 \<Rightarrow> vec3 \<Rightarrow> (real \<times> vec3 option) option" where
  "heightMapTracing hmap ori dir =
     (let s0 = trace_init hmap ori dir
      in if hx s0 > 0 then Some (tx s0, None)
         else (case trace_loop hmap ori dir NUM_STEPS s0 of
                 None \<Rightarrow> None
               | Some s \<Rightarrow> Some (tmid s, p s)))"

text \<open>
  What \<open>main\<close> (lines 225 to 228) hands on to \<open>getNormal\<close> and \<open>getSeaColor\<close>: the
  variable \<open>p\<close>, declared without initialiser and written only through the out parameter,
  and \<open>dist = p - ori\<close>. The returned distance is discarded.
\<close>

record surface_query =
  sq_p :: "vec3 option"
  sq_dist :: "vec3 option"

definition main_surface :: "(vec3 \<Rightarrow> real) \<Rightarrow> vec3 \<Rightarrow> vec3 \<Rightarrow> surface_query option" where
  "main_surface hmap ori dir =
     (case heightMapTracing hmap ori dir of
        None \<Rightarrow> None
      | Some (t, q) \<Rightarrow> Some \<lparr>sq_p = q, sq_dist = map_option (\<lambda>v. vsub v ori) q\<rparr>)"


text \<open>
  The sea at rest: the value of the shader's \<open>map\<close>, which is \<open>p.y - h\<close>, when the wave
  height \<open>h\<close> is zero.
\<close>

definition flat_sea :: "vec3 \<Rightarrow> real" where
  "flat_sea v = fst (snd v)"

section \<open>The objects of the rendering engine\<close>

text \<open>
  JavaScript numbers are read as real numbers. A division of two finite numbers has a
  result of its own when the divisor is zero.
\<close>

datatype jsnum = Num real | PosInfinity | NegInfinity | NaN

definition js_div :: "real \<Rightarrow> real \<Rightarrow> jsnum" where
  "js_div a b =
     (if b \<noteq> 0 then Num (a / b)
      else if a = 0 then NaN
      else if 0 < a then PosInfinity else NegInfinity)"

datatype js_error = TypeError

text \<open>
  The \<open>value\<close> of a uniform: a number, a two-component vector, or the text that
  JavaScript produces when \<open>+=\<close> adds a number to an object.
\<close>

datatype uvalue = UNum real | UVec2 real real | UText

record material =
  vertexShader :: string
  fragmentShader :: string
  uniforms :: "string \<rightharpoonup> uvalue"
  depthWrite :: bool
  depthTest :: bool

datatype geometry = PlaneGeometry real real | SphereGeometry real nat nat | AxesGeometry real

datatype surface = ShaderMaterial nat | MeshBasicMaterial nat | LineBasicMaterial

record object3d =
  geometry :: geometry
  surface :: surface
  frustumCulled :: bool
  position :: vec3

text \<open>
  Objects are shared by reference: the mesh of the ocean and the field \<open>this.material\<close>
  name one material. The store maps references to materials and to scene objects; a
  reference always resolves, so both maps are total. It also holds the children of the
  scene and the window properties that the code reads.
\<close>

record store =
  innerWidth :: real
  innerHeight :: real
  devicePixelRatio :: real
  mats :: "nat \<Rightarrow> material"
  objs :: "nat \<Rightarrow> object3d"
  next_ref :: nat
  children :: "nat list"

definition new_material :: "material \<Rightarrow> store \<Rightarrow> nat \<times> store" where
  "new_material m w = (next_ref w, w\<lparr>mats := (mats w)(next_ref w := m), next_ref := Suc (next_ref w)\<rparr>)"

definition new_object :: "object3d \<Rightarrow> store \<Rightarrow> nat \<times> store" where
  "new_object ob w = (next_ref w, w\<lparr>objs := (objs w)(next_ref w := ob), next_ref := Suc (next_ref w)\<rparr>)"

text \<open>\<open>scene.add(object)\<close> for an object that has no parent yet.\<close>

definition scene_add :: "nat \<Rightarrow> store \<Rightarrow> store" where
  "scene_add r w = w\<lparr>children := children w @ [r]\<rparr>"

section \<open>The raymarched ocean controller (class Ocean)\<close>

text \<open>
  The fields \<open>this.mesh\<close> and \<open>this.material\<close>; \<open>None\<close> is \<open>null\<close> or \<open>undefined\<close>.
  The field \<open>this.scene\<close> is the scene of the store.
\<close>

record ocean =
  ocean_mesh :: "nat option"
  ocean_material :: "nat option"

text \<open>
  \<open>init()\<close>. The two shader sources are imported modules and are passed in. A new mesh
  is frustum-culled by default; \<open>init\<close> then clears the flag.
\<close>

definition Ocean_init :: "string \<Rightarrow> string \<Rightarrow> ocean \<Rightarrow> store \<Rightarrow> ocean \<times> store" where
  "Ocean_init vs fs oc w =
     (let geo = PlaneGeometry 2 2;
          (m, w1) = new_material
             \<lparr>vertexShader = vs, fragmentShader = fs,
              uniforms = [''uTime'' \<mapsto> UNum 0,
                          ''uResolution'' \<mapsto> UVec2 (innerWidth w) (innerHeight w)],
              depthWrite = False, depthTest = False\<rparr> w;
          oc1 = oc\<lparr>ocean_material := Some m\<rparr>;
          (r, w2) = new_object
             \<lparr>geometry = geo, surface = ShaderMaterial m, frustumCulled = True,
              position = (0, 0, 0)\<rparr> w1;
          oc2 = oc1\<lparr>ocean_mesh := Some r\<rparr>;
          w3 = w2\<lparr>objs := (objs w2)(r := (objs w2 r)\<lparr>frustumCulled := False\<rparr>)\<rparr>
      in (oc2, scene_add r w3))"

text \<open>The constructor sets \<open>this.mesh = null\<close> and calls \<open>init()\<close>.\<close>

definition Ocean_new :: "string \<Rightarrow> string \<Rightarrow> store \<Rightarrow> ocean \<times> store" where
  "Ocean_new vs fs w = Ocean_init vs fs \<lparr>ocean_mesh = None, ocean_material = None\<rparr> w"

text \<open>
  \<open>update(time)\<close> assigns to \<open>uniforms.uTime.value\<close>; reading \<open>.value\<close> of a missing
  uniform raises a TypeError.
\<close>

definition Ocean_update :: "real \<Rightarrow> ocean \<Rightarrow> store \<Rightarrow> js_error + store" where
  "Ocean_update time oc w =
     (case ocean_material oc of
        None \<Rightarrow> Inr w
      | Some m \<Rightarrow>
          (case uniforms (mats w m) ''uTime'' of
             None \<Rightarrow> Inl TypeError
           | Some v \<Rightarrow>
               Inr (w\<lparr>mats := (mats w)(m := (mats w m)
                      \<lparr>uniforms := (uniforms (mats w m))(''uTime'' \<mapsto> UNum time)\<rparr>)\<rparr>)))"

text \<open>
  \<open>resize()\<close> calls \<open>uniforms.uResolution.value.set(innerWidth, innerHeight)\<close>; only a
  vector value has the method \<open>set\<close>.
\<close>

definition Ocean_resize :: "ocean \<Rightarrow> store \<Rightarrow> js_error + store" where
  "Ocean_resize oc w =
     (case ocean_material oc of
        None \<Rightarrow> Inr w
      | Some m \<Rightarrow>
          (case uniforms (mats w m) ''uResolution'' of
             Some (UVec2 x y) \<Rightarrow>
               Inr (w\<lparr>mats := (mats w)(m := (mats w m)
                      \<lparr>uniforms := (uniforms (mats w m))
                         (''uResolution'' \<mapsto> UVec2 (innerWidth w) (innerHeight w))\<rparr>)\<rparr>)
           | _ \<Rightarrow> Inl TypeError))"

text \<open>The ocean has its material, with both uniforms of the kinds \<open>init\<close> creates.\<close>

definition ocean_ready :: "ocean \<Rightarrow> store \<Rightarrow> bool" where
  "ocean_ready oc w =
     (case ocean_material oc of
        None \<Rightarrow> False
      | Some m \<Rightarrow>
          (case uniforms (mats w m) ''uTime'' of
             None \<Rightarrow> False
           | Some v \<Rightarrow>
               (case uniforms (mats w m) ''uResolution'' of
                  Some (UVec2 x y) \<Rightarrow> True
                | _ \<Rightarrow> False)))"

section \<open>The bootstrap (main.js)\<close>

text \<open>
  The camera, with the aspect from which \<open>updateProjectionMatrix()\<close> last computed the
  projection, and the renderer with the size given to \<open>setSize\<close>.
\<close>

record camera =
  fov :: real
  aspect :: jsnum
  near :: real
  far :: real
  cam_position :: vec3
  cam_target :: vec3
  projection_aspect :: jsnum

record renderer =
  pixelRatio :: real
  canvas_size :: "real \<times> real"

text \<open>
  The calls that leave the program, in the order in which they are made. A call of
  \<open>render\<close> sees the store and the camera as they are at that moment.
\<close>

datatype effect = RequestAnimationFrame | GetElapsedTime real | Render store camera

record app =
  app_store :: store
  app_camera :: camera
  app_renderer :: renderer
  app_ocean :: ocean
  sphere :: nat
  axis :: nat
  effects :: "effect list"

text \<open>Lines 7 to 64: scene, camera, renderer, axis helper, test sphere, ocean.\<close>

definition main_init :: "string \<Rightarrow> string \<Rightarrow> store \<Rightarrow> app" where
  "main_init vs fs w0 =
     (let c = \<lparr>fov = 30, aspect = js_div (innerWidth w0) (innerHeight w0), near = 1,
               far = 10000, cam_position = (20, 10, 0), cam_target = (0, 0, 0),
               projection_aspect = js_div (innerWidth w0) (innerHeight w0)\<rparr>;
          r = \<lparr>pixelRatio = devicePixelRatio w0,
               canvas_size = (innerWidth w0, innerHeight w0)\<rparr>;
          (ax, w1) = new_object
             \<lparr>geometry = AxesGeometry 10, surface = LineBasicMaterial, frustumCulled = True,
              position = (0, 0, 0)\<rparr> w0;
          w2 = scene_add ax w1;
          (sp, w3) = new_object
             \<lparr>geometry = SphereGeometry 10 32 32, surface = MeshBasicMaterial 16776960,
              frustumCulled = True, position = (0, 0, 0)\<rparr> w2;
          w4 = scene_add sp w3;
          (oc, w5) = Ocean_new vs fs w4
      in \<lparr>app_store = w5, app_camera = c, app_renderer = r, app_ocean = oc, sphere = sp,
          axis = ax, effects = []\<rparr>)"

definition set_position_y :: "real \<Rightarrow> object3d \<Rightarrow> object3d" where
  "set_position_y v ob = ob\<lparr>position := (fst (position ob), v, snd (snd (position ob)))\<rparr>"

text \<open>
  One call of \<open>animate()\<close>; \<open>time\<close> is the value that \<open>clock.getElapsedTime()\<close> returns
  in this frame. An error raised by \<open>ocean.update\<close> ends the frame before the rendering.
\<close>

definition animate :: "real \<Rightarrow> app \<Rightarrow> js_error + app" where
  "animate time a =
     (let a1 = a\<lparr>effects := effects a @ [RequestAnimationFrame, GetElapsedTime time]\<rparr>
      in case Ocean_update time (app_ocean a1) (app_store a1) of
           Inl e \<Rightarrow> Inl e
         | Inr w1 \<Rightarrow>
             (let w2 = w1\<lparr>objs := (objs w1)
                         (sphere a1 := set_position_y (sin time * 5) (objs w1 (sphere a1)))\<rparr>
              in Inr (a1\<lparr>app_store := w2,
                        effects := effects a1 @ [Render w2 (app_camera a1)]\<rparr>)))"

text \<open>The listener of the \<open>resize\<close> event (lines 96 to 101).\<close>

definition on_resize :: "app \<Rightarrow> js_error + app" where
  "on_resize a =
     (let w = app_store a;
          c1 = (app_camera a)\<lparr>aspect := js_div (innerWidth w) (innerHeight w)\<rparr>;
          c2 = c1\<lparr>projection_aspect := aspect c1\<rparr>;
          r1 = (app_renderer a)\<lparr>canvas_size := (innerWidth w, innerHeight w)\<rparr>
      in case Ocean_resize (app_ocean a) w of
           Inl e \<Rightarrow> Inl e
         | Inr w1 \<Rightarrow> Inr (a\<lparr>app_store := w1, app_camera := c2, app_renderer := r1\<rparr>))"

text \<open>
  The browser gives the window its new inner size and then fires the event; between
  events it calls \<open>animate\<close> once per frame.
\<close>

datatype event = Frame real | Resize real real

definition window_resized :: "real \<Rightarrow> real \<Rightarrow> app \<Rightarrow> js_error + app" where
  "window_resized width height a =
     on_resize (a\<lparr>app_store := (app_store a)\<lparr>innerWidth := width, innerHeight := height\<rparr>\<rparr>)"

fun run :: "event list \<Rightarrow> app \<Rightarrow> js_error + app" where
  "run [] a = Inr a"
| "run (Frame t # evs) a = (case animate t a of Inl e \<Rightarrow> Inl e | Inr a' \<Rightarrow> run evs a')"
| "run (Resize width height # evs) a =
     (case window_resized width height a of Inl e \<Rightarrow> Inl e | Inr a' \<Rightarrow> run evs a')"

text \<open>An empty store for a window of the given size.\<close>

definition blank_material :: material where
  "blank_material =
     \<lparr>vertexShader = [], fragmentShader = [], uniforms = Map.empty, depthWrite = True,
      depthTest = True\<rparr>"

definition blank_object :: object3d where
  "blank_object =
     \<lparr>geometry = PlaneGeometry 0 0, surface = LineBasicMaterial, frustumCulled = True,
      position = (0, 0, 0)\<rparr>"

definition empty_store :: "real \<Rightarrow> real \<Rightarrow> real \<Rightarrow> store" where
  "empty_store width height ratio =
     \<lparr>innerWidth = width, innerHeight = height, devicePixelRatio = ratio,
      mats = (\<lambda>r. blank_material), objs = (\<lambda>r. blank_object), next_ref = 0, children = []\<rparr>"

section \<open>The water and sky controller (class SceneSetup)\<close>

text \<open>
  The shader object that the engine hands to \<open>onBeforeCompile\<close>, and the parts of the
  library's water and sky objects that the controller touches: the uniforms \<open>time\<close>,
  \<open>sunDirection\<close> and \<open>sunPosition\<close>, and \<open>material.userData.shader\<close>.
\<close>

record shader =
  sh_uniforms :: "string \<rightharpoonup> uvalue"
  sh_vertexShader :: string
  sh_fragmentShader :: string

record water_obj =
  w_time :: real
  w_sunDirection :: vec3
  w_shader :: "shader option"

record sky_obj =
  sunPosition :: vec3

text \<open>
  The fields of the controller; \<open>environment\<close> is the sky from which the environment map
  of the scene was generated.
\<close>

record scene_setup =
  water :: "water_obj option"
  sky :: "sky_obj option"
  sun :: vec3
  environment :: "sky_obj option"



definition vlength :: "vec3 \<Rightarrow> real" where
  "vlength v = (case v of (x, y, z) \<Rightarrow> sqrt (x * x + y * y + z * z))"

definition normalize :: "vec3 \<Rightarrow> vec3" where
  "normalize v = vscale v (1 / (if vlength v = 0 then 1 else vlength v))"


text \<open>The operator \<open>+=\<close> on the value of a uniform.\<close>

fun add_assign :: "uvalue \<Rightarrow> real \<Rightarrow> uvalue" where
  "add_assign (UNum v) d = UNum (v + d)"
| "add_assign (UVec2 x y) d = UText"
| "add_assign UText d = UText"

text \<open>\<open>update()\<close>: it has no parameter.\<close>

definition SceneSetup_update :: "scene_setup \<Rightarrow> js_error + scene_setup" where
  "SceneSetup_update s =
     (case water s of
        None \<Rightarrow> Inr s
      | Some wt \<Rightarrow>
          (let wt1 = wt\<lparr>w_time := w_time wt + 1 / 60\<rparr>
           in case w_shader wt1 of
                None \<Rightarrow> Inr (s\<lparr>water := Some wt1\<rparr>)
              | Some sh \<Rightarrow>
                  (case sh_uniforms sh ''uTime'' of
                     None \<Rightarrow> Inl TypeError
                   | Some v \<Rightarrow>
                       Inr (s\<lparr>water := Some (wt1\<lparr>w_shader := Some
                              (sh\<lparr>sh_uniforms := (sh_uniforms sh)
                                 (''uTime'' \<mapsto> add_assign v (1 / 60))\<rparr>)\<rparr>)\<rparr>))))"

text \<open>
  The bootstrap of main.js drives the ocean controller only. This is the call
  \<open>update(time)\<close> of a frame loop on the water and sky controller: JavaScript evaluates
  an argument for which the method declares no parameter and drops it.
\<close>

definition SceneSetup_update_call :: "real \<Rightarrow> scene_setup \<Rightarrow> js_error + scene_setup" where
  "SceneSetup_update_call time s = SceneSetup_update s"



text \<open>The two time uniforms of the controller, where they exist.\<close>

definition water_time :: "scene_setup \<Rightarrow> real option" where
  "water_time s = map_option w_time (water s)"


subsection \<open>The patch of the vertex shader\<close>

text \<open>
  \<open>String.prototype.replace\<close> with a string as pattern replaces the first occurrence of
  the pattern, if there is one. It expands the character \<open>$\<close> in the replacement; the
  replacement used here has none, and the model inserts the replacement as it is.
\<close>

fun js_replace :: "string \<Rightarrow> string \<Rightarrow> string \<Rightarrow> string" where
  "js_replace pat rep [] = (if pat = [] then rep else [])"
| "js_replace pat rep (c # cs) =
     (if prefix pat (c # cs) then rep @ drop (length pat) (c # cs)
      else c # js_replace pat rep cs)"

text \<open>The template literal of lines 78 to 97, prepended to the vertex shader.\<close>

definition GERSTNER_SOURCE :: string where
  "GERSTNER_SOURCE = concat
     [''\<newline>'',
      ''                uniform float uTime;\<newline>'',
      ''                varying float vElevation;\<newline>'',
      ''\<newline>'',
      ''                // Gerstner wave implementation\<newline>'',
      ''                // Produces steep, directional ocean waves\<newline>'',
      ''                vec3 gerstnerWave(vec2 coord, vec2 direction, float steepness, float wavelength, float speed) {\<newline>'',
      ''                    float k = 2.0 * 3.14159 / wavelength;\<newline>'',
      ''                    float c = sqrt(9.8 / k);\<newline>'',
      ''                    vec2 d = normalize(direction);\<newline>'',
      ''                    float f = k * (dot(d, coord) - speed * uTime);\<newline>'',
      ''                    float a = steepness / k;\<newline>'',
      ''                    \<newline>'',
      ''                    return vec3(\<newline>'',
      ''                        d.x * (a * cos(f)),\<newline>'',
      ''                        a * sin(f),\<newline>'',
      ''                        d.y * (a * cos(f))\<newline>'',
      ''                    );\<newline>'',
      ''                }\<newline>'',
      ''            '']"

definition BEGIN_VERTEX :: string where
  "BEGIN_VERTEX = ''#include <begin_vertex>''"

text \<open>
  The template literal of lines 102 to 128 in three parts: the text before the include
  directive, the directive, and the text after it.
\<close>

definition WAVE_LEAD :: string where
  "WAVE_LEAD = ''\<newline>                ''"

definition WAVE_LINES :: "string list" where
  "WAVE_LINES =
     [''\<newline>'',
      ''\<newline>'',
      ''                // Multiple Gerstner waves with different directions and scales\<newline>'',
      ''                // Creates complex, chaotic ocean motion\<newline>'',
      ''                vec3 wave1 = gerstnerWave(position.xy, vec2(1.0, 0.1), 0.9, 300.0, 15.0);\<newline>'',
      ''                vec3 wave2 = gerstnerWave(position.xy, vec2(0.7, 1.0), 0.8, 150.0, 20.0);\<newline>'',
      ''                vec3 wave3 = gerstnerWave(position.xy, vec2(-0.2, -0.4), 0.8, 80.0, 25.0);\<newline>'',
      ''                vec3 wave4 = gerstnerWave(position.xy, vec2(0.5, -0.6), 0.7, 40.0, 35.0);\<newline>'',
      ''\<newline>'',
      ''                // Combine all wave displacements\<newline>'',
      ''                vec3 totalDisplacement = wave1 + wave2 + wave3 + wave4;\<newline>'',
      ''\<newline>'',
      ''                // Amplify vertical motion for dramatic wave height\<newline>'',
      ''                totalDisplacement.y *= 5.0;\<newline>'',
      ''\<newline>'',
      ''                // Add very large, slow-moving ocean swells\<newline>'',
      ''                float giantSwell = sin(position.x * 0.003 + uTime * 3.0) * 50.0;\<newline>'',
      ''                float secondarySwell = cos(position.y * 0.003 + uTime * 2.5) * 40.0;\<newline>'',
      ''                totalDisplacement.y += giantSwell + secondarySwell;\<newline>'',
      ''\<newline>'',
      ''                // Apply final displacement to vertex\<newline>'',
      ''                transformed += totalDisplacement;\<newline>'',
      ''\<newline>'',
      ''                // Pass elevation value for potential shading use\<newline>'',
      ''                vElevation = transformed.z;\<newline>'',
      ''                '']"

definition WAVE_CODE :: string where
  "WAVE_CODE = concat WAVE_LINES"

definition WAVE_VERTEX :: string where
  "WAVE_VERTEX = WAVE_LEAD @ BEGIN_VERTEX @ WAVE_CODE"

text \<open>
  The hook installed on the water material. The shader object stored in
  \<open>userData.shader\<close> is the one the hook goes on to change, so the stored shader has the
  patched source.
\<close>

definition onBeforeCompile :: "shader \<Rightarrow> scene_setup \<Rightarrow> js_error + scene_setup" where
  "onBeforeCompile sh s =
     (let sh1 = sh\<lparr>sh_uniforms := (sh_uniforms sh)(''uTime'' \<mapsto> UNum 0)\<rparr>
      in case water s of
           None \<Rightarrow> Inl TypeError
         | Some wt \<Rightarrow>
             (let sh2 = sh1\<lparr>sh_vertexShader := GERSTNER_SOURCE @ sh_vertexShader sh1\<rparr>;
                  sh3 = sh2\<lparr>sh_vertexShader :=
                           js_replace BEGIN_VERTEX WAVE_VERTEX (sh_vertexShader sh2)\<rparr>
              in Inr (s\<lparr>water := Some (wt\<lparr>w_shader := Some sh3\<rparr>)\<rparr>)))"




section \<open>Frame conditions\<close>

text \<open>
  In the step from \<open>w\<close> to \<open>w'\<close> nothing has changed except the uniform \<open>key\<close> of the
  material of the ocean: the scene objects, the children of the scene, the window
  properties, every other material, and, in every material, the shader sources, the
  depth flags and every other uniform are as before.
\<close>

definition only_uniform_changed :: "string \<Rightarrow> ocean \<Rightarrow> store \<Rightarrow> store \<Rightarrow> bool" where
  "only_uniform_changed key oc w w' \<longleftrightarrow>
     objs w' = objs w \<and> children w' = children w \<and> next_ref w' = next_ref w \<and>
     innerWidth w' = innerWidth w \<and> innerHeight w' = innerHeight w \<and>
     devicePixelRatio w' = devicePixelRatio w \<and>
     (\<forall>r. Some r \<noteq> ocean_material oc \<longrightarrow> mats w' r = mats w r) \<and>
     (\<forall>r. vertexShader (mats w' r) = vertexShader (mats w r) \<and>
          fragmentShader (mats w' r) = fragmentShader (mats w r) \<and>
          depthWrite (mats w' r) = depthWrite (mats w r) \<and>
          depthTest (mats w' r) = depthTest (mats w r)) \<and>
     (\<forall>r k. k \<noteq> key \<longrightarrow> uniforms (mats w' r) k = uniforms (mats w r) k)"

text \<open>A controller on which neither \<open>init\<close> has run nor a water object exists.\<close>

definition bare_ocean :: ocean where
  "bare_ocean = \<lparr>ocean_mesh = None, ocean_material = None\<rparr>"

definition bare_setup :: scene_setup where
  "bare_setup = \<lparr>water = None, sky = None, sun = (0, 0, 0), environment = None\<rparr>"

text \<open>
  Sample states: an ocean as the constructor leaves it in an empty scene of an 800 by
  600 window, the application after the bootstrap, and the water and sky controller
  with its water and sky created (time uniform 0, vectors zero), before and after the
  engine has compiled an empty shader through the hook.
\<close>

definition demo_ocean :: "ocean \<times> store" where
  "demo_ocean = Ocean_new ''vertex'' ''fragment'' (empty_store 800 600 1)"

definition demo_app :: app where
  "demo_app = main_init ''vertex'' ''fragment'' (empty_store 800 600 1)"

definition fresh_setup :: scene_setup where
  "fresh_setup =
     \<lparr>water = Some \<lparr>w_time = 0, w_sunDirection = (0, 0, 0), w_shader = None\<rparr>,
      sky = Some \<lparr>sunPosition = (0, 0, 0)\<rparr>, sun = (0, 0, 0), environment = None\<rparr>"

definition empty_shader :: shader where
  "empty_shader = \<lparr>sh_uniforms = Map.empty, sh_vertexShader = [], sh_fragmentShader = []\<rparr>"

definition compiled_setup :: scene_setup where
  "compiled_setup =
     \<lparr>water = Some \<lparr>w_time = 0, w_sunDirection = (0, 0, 0),
        w_shader = Some \<lparr>sh_uniforms = [''uTime'' \<mapsto> UNum 0],
                          sh_vertexShader = GERSTNER_SOURCE, sh_fragmentShader = []\<rparr>\<rparr>,
      sky = Some \<lparr>sunPosition = (0, 0, 0)\<rparr>, sun = (0, 0, 0), environment = None\<rparr>"

section \<open>Properties of the height-field tracing\<close>










text \<open>
  C9. When the height field at the far end of the ray is above the ray, that is
  \<open>map(ori + dir * 1000) > 0\<close>, \<open>heightMapTracing\<close> returns 1000 and no assignment to its
  out parameter \<open>p\<close> has run, so \<open>main\<close> passes a point without a specified value (and a
  \<open>dist\<close> computed from it) on to the normal and the sea colour.
\<close>

theorem heightMapTracing_far_leaves_p:
  assumes "0 < hmap (ray ori dir 1000)"
  shows "heightMapTracing hmap ori dir = Some (1000, None) \<and>
         main_surface hmap ori dir = Some \<lparr>sq_p = None, sq_dist = None\<rparr>"
  using assms by (simp add: heightMapTracing_def main_surface_def trace_init_def Let_def)

theorem heightMapTracing_far_leaves_p_witness:
  "0 < flat_sea (ray (0, 5/2, 0) (0, 1, 0) 1000) \<and>
   heightMapTracing flat_sea (0, 5/2, 0) (0, 1, 0) = Some (1000, None) \<and>
   main_surface flat_sea (0, 5/2, 0) (0, 1, 0) = Some \<lparr>sq_p = None, sq_dist = None\<rparr>"
proof -
  have h: "0 < flat_sea (ray (0, 5/2, 0) (0, 1, 0) 1000)"
    by (simp add: flat_sea_def ray_def vadd_def vscale_def)
  show ?thesis
    using h heightMapTracing_far_leaves_p [of flat_sea "(0, 5/2, 0)" "(0, 1, 0)"] by simp
qed

section \<open>Properties of the ocean controller\<close>

lemma Ocean_init_eq:
  "Ocean_init vs fs oc w =
     (oc\<lparr>ocean_material := Some (next_ref w), ocean_mesh := Some (Suc (next_ref w))\<rparr>,
      w\<lparr>mats := (mats w)(next_ref w :=
             \<lparr>vertexShader = vs, fragmentShader = fs,
              uniforms = [''uTime'' \<mapsto> UNum 0,
                          ''uResolution'' \<mapsto> UVec2 (innerWidth w) (innerHeight w)],
              depthWrite = False, depthTest = False\<rparr>),
         objs := (objs w)(Suc (next_ref w) :=
             \<lparr>geometry = PlaneGeometry 2 2, surface = ShaderMaterial (next_ref w),
              frustumCulled = False, position = (0, 0, 0)\<rparr>),
         next_ref := Suc (Suc (next_ref w)),
         children := children w @ [Suc (next_ref w)]\<rparr>)"
  by (simp add: Ocean_init_def new_material_def new_object_def scene_add_def Let_def)

lemma Ocean_init_ready:
  "Ocean_init vs fs oc w = (oc', w') \<Longrightarrow> ocean_ready oc' w'"
  by (auto simp: Ocean_init_eq ocean_ready_def)

lemma ocean_ready_cases:
  assumes "ocean_ready oc w"
  obtains m v x y where "ocean_material oc = Some m"
    and "uniforms (mats w m) ''uTime'' = Some v"
    and "uniforms (mats w m) ''uResolution'' = Some (UVec2 x y)"
  using assms by (auto simp: ocean_ready_def split: option.splits uvalue.splits)

lemma ocean_ready_objs:
  "ocean_ready oc (w\<lparr>objs := f\<rparr>) = ocean_ready oc w"
  by (auto simp: ocean_ready_def split: option.splits uvalue.splits)

lemma ocean_ready_window:
  "ocean_ready oc (w\<lparr>innerWidth := x, innerHeight := y\<rparr>) = ocean_ready oc w"
  by (auto simp: ocean_ready_def split: option.splits uvalue.splits)

lemma Ocean_update_ready:
  assumes "ocean_ready oc w"
  shows "\<exists>w' m. Ocean_update t oc w = Inr w' \<and> ocean_material oc = Some m \<and>
           uniforms (mats w' m) ''uTime'' = Some (UNum t) \<and> ocean_ready oc w'"
proof -
  from assms obtain m v x y where m: "ocean_material oc = Some m"
    and t: "uniforms (mats w m) ''uTime'' = Some v"
    and r: "uniforms (mats w m) ''uResolution'' = Some (UVec2 x y)"
    by (rule ocean_ready_cases)
  then show ?thesis
    by (simp add: Ocean_update_def ocean_ready_def)
qed

lemma Ocean_resize_ready:
  assumes "ocean_ready oc w"
  shows "\<exists>w' m. Ocean_resize oc w = Inr w' \<and> ocean_material oc = Some m \<and>
           uniforms (mats w' m) ''uResolution'' = Some (UVec2 (innerWidth w) (innerHeight w)) \<and>
           innerWidth w' = innerWidth w \<and> innerHeight w' = innerHeight w \<and>
           ocean_ready oc w'"
proof -
  from assms obtain m v x y where m: "ocean_material oc = Some m"
    and t: "uniforms (mats w m) ''uTime'' = Some v"
    and r: "uniforms (mats w m) ''uResolution'' = Some (UVec2 x y)"
    by (rule ocean_ready_cases)
  then show ?thesis
    by (simp add: Ocean_resize_def ocean_ready_def)
qed

lemma Ocean_update_frame:
  "Ocean_update t oc w = Inr w' \<Longrightarrow> only_uniform_changed ''uTime'' oc w w'"
  by (auto simp: Ocean_update_def only_uniform_changed_def split: option.splits if_splits)

lemma Ocean_resize_frame:
  "Ocean_resize oc w = Inr w' \<Longrightarrow> only_uniform_changed ''uResolution'' oc w w'"
  by (auto simp: Ocean_resize_def only_uniform_changed_def
      split: option.splits uvalue.splits if_splits)

lemma demo_ocean_eval:
  "ocean_material (fst demo_ocean) = Some 0"
  "uniforms (mats (snd demo_ocean) 0) ''uTime'' = Some (UNum 0)"
  "uniforms (mats (snd demo_ocean) 0) ''uResolution'' = Some (UVec2 800 600)"
  by (simp_all add: demo_ocean_def Ocean_new_def Ocean_init_eq empty_store_def)

lemma demo_ocean_ready: "ocean_ready (fst demo_ocean) (snd demo_ocean)"
  by (simp add: ocean_ready_def demo_ocean_eval)


text \<open>
  C8. A call \<open>update(t)\<close> that returns has changed nothing but the uniform \<open>uTime\<close> of
  the ocean's material, and a call \<open>resize()\<close> that returns has changed nothing but its
  uniform \<open>uResolution\<close>: the mesh and every other scene object, the other uniform, the
  shader sources and the depth flags are as before. Neither method assigns a field of
  the controller.
\<close>

theorem Ocean_update_resize_frame:
  "(Ocean_update t oc w = Inr w' \<longrightarrow> only_uniform_changed ''uTime'' oc w w') \<and>
   (Ocean_resize oc w = Inr w'' \<longrightarrow> only_uniform_changed ''uResolution'' oc w w'')"
  using Ocean_update_frame Ocean_resize_frame by blast

theorem Ocean_update_resize_frame_witness:
  "(\<exists>w'. Ocean_update 3 (fst demo_ocean) (snd demo_ocean) = Inr w' \<and>
      only_uniform_changed ''uTime'' (fst demo_ocean) (snd demo_ocean) w' \<and>
      uniforms (mats w' 0) ''uResolution'' = Some (UVec2 800 600)) \<and>
   (\<exists>w''. Ocean_resize (fst demo_ocean) (snd demo_ocean) = Inr w'' \<and>
      only_uniform_changed ''uResolution'' (fst demo_ocean) (snd demo_ocean) w'' \<and>
      uniforms (mats w'' 0) ''uTime'' = Some (UNum 0))"
proof -
  obtain w' where u: "Ocean_update 3 (fst demo_ocean) (snd demo_ocean) = Inr w'"
    using Ocean_update_ready [OF demo_ocean_ready] by blast
  obtain w'' where r: "Ocean_resize (fst demo_ocean) (snd demo_ocean) = Inr w''"
    using Ocean_resize_ready [OF demo_ocean_ready] by blast
  from u r Ocean_update_resize_frame [of 3 "fst demo_ocean" "snd demo_ocean" w' w'']
  have f: "only_uniform_changed ''uTime'' (fst demo_ocean) (snd demo_ocean) w'"
    and g: "only_uniform_changed ''uResolution'' (fst demo_ocean) (snd demo_ocean) w''"
    by blast+
  from f have "uniforms (mats w' 0) ''uResolution'' = Some (UVec2 800 600)"
    by (simp add: only_uniform_changed_def demo_ocean_eval)
  moreover from g have "uniforms (mats w'' 0) ''uTime'' = Some (UNum 0)"
    by (simp add: only_uniform_changed_def demo_ocean_eval)
  ultimately show ?thesis using u r f g by blast
qed

text \<open>
  C10. Without a material, \<open>Ocean.update\<close> and \<open>Ocean.resize\<close> return normally and
  leave the store as it is; without a water object, so does \<open>SceneSetup.update\<close> with
  the controller.
\<close>

theorem guarded_updates_noop:
  "(ocean_material oc = None \<longrightarrow> Ocean_update t oc w = Inr w \<and> Ocean_resize oc w = Inr w) \<and>
   (water s = None \<longrightarrow> SceneSetup_update s = Inr s)"
  by (simp add: Ocean_update_def Ocean_resize_def SceneSetup_update_def)

theorem guarded_updates_noop_witness:
  "ocean_material bare_ocean = None \<and>
   Ocean_update 3 bare_ocean (empty_store 800 600 1) = Inr (empty_store 800 600 1) \<and>
   Ocean_resize bare_ocean (empty_store 800 600 1) = Inr (empty_store 800 600 1) \<and>
   water bare_setup = None \<and>
   SceneSetup_update bare_setup = Inr bare_setup"
proof -
  have a: "ocean_material bare_ocean = None" by (simp add: bare_ocean_def)
  have b: "water bare_setup = None" by (simp add: bare_setup_def)
  show ?thesis
    using a b guarded_updates_noop [of bare_ocean 3 "empty_store 800 600 1" bare_setup]
    by simp
qed

section \<open>Properties of the bootstrap\<close>

lemma main_init_ready:
  "ocean_ready (app_ocean (main_init vs fs w0)) (app_store (main_init vs fs w0))"
  by (simp add: main_init_def Ocean_new_def Ocean_init_eq new_object_def scene_add_def
      ocean_ready_def Let_def)

lemma animate_ready:
  assumes "ocean_ready (app_ocean a) (app_store a)"
  shows "\<exists>a'. animate t a = Inr a' \<and> ocean_ready (app_ocean a') (app_store a')"
proof -
  from Ocean_update_ready [OF assms, of t] obtain w1 where
    u: "Ocean_update t (app_ocean a) (app_store a) = Inr w1"
    and r: "ocean_ready (app_ocean a) w1" by blast
  from r have "ocean_ready (app_ocean a)
      (w1\<lparr>objs := (objs w1)(sphere a := set_position_y (sin t * 5) (objs w1 (sphere a)))\<rparr>)"
    by (simp add: ocean_ready_objs)
  with u show ?thesis by (simp add: animate_def Let_def)
qed

lemma on_resize_ready:
  assumes "ocean_ready (app_ocean a) (app_store a)"
  shows "\<exists>a'. on_resize a = Inr a' \<and> ocean_ready (app_ocean a') (app_store a')"
proof -
  from Ocean_resize_ready [OF assms] obtain w1 where
    "Ocean_resize (app_ocean a) (app_store a) = Inr w1" "ocean_ready (app_ocean a) w1"
    by blast
  then show ?thesis by (simp add: on_resize_def Let_def)
qed

lemma window_resized_ready:
  assumes "ocean_ready (app_ocean a) (app_store a)"
  shows "\<exists>a'. window_resized width height a = Inr a' \<and>
           ocean_ready (app_ocean a') (app_store a')"
proof -
  from assms have "ocean_ready
      (app_ocean (a\<lparr>app_store := (app_store a)\<lparr>innerWidth := width, innerHeight := height\<rparr>\<rparr>))
      (app_store (a\<lparr>app_store := (app_store a)\<lparr>innerWidth := width, innerHeight := height\<rparr>\<rparr>))"
    by (simp add: ocean_ready_window)
  from on_resize_ready [OF this] show ?thesis by (simp add: window_resized_def)
qed

text \<open>From the bootstrap on, no frame and no resize event raises an error.\<close>

lemma run_ready:
  "ocean_ready (app_ocean a) (app_store a) \<Longrightarrow>
     \<exists>a'. run evs a = Inr a' \<and> ocean_ready (app_ocean a') (app_store a')"
proof (induction evs arbitrary: a)
  case Nil
  then show ?case by simp
next
  case (Cons ev evs)
  show ?case
  proof (cases ev)
    case (Frame t)
    from animate_ready [OF Cons.prems, of t] obtain a1 where
      a1: "animate t a = Inr a1" "ocean_ready (app_ocean a1) (app_store a1)" by blast
    from Cons.IH [OF a1(2)] show ?thesis using a1(1) Frame by simp
  next
    case (Resize width height)
    from window_resized_ready [OF Cons.prems, of width height] obtain a1 where
      a1: "window_resized width height a = Inr a1"
          "ocean_ready (app_ocean a1) (app_store a1)" by blast
    from Cons.IH [OF a1(2)] show ?thesis using a1(1) Resize by simp
  qed
qed

lemma run_main_init:
  "\<exists>a. run evs (main_init vs fs w0) = Inr a \<and> ocean_ready (app_ocean a) (app_store a)"
  by (rule run_ready [OF main_init_ready])

text \<open>
  C4. With the ocean constructed, the listener of the \<open>resize\<close> event sets the aspect of
  the camera to \<open>innerWidth / innerHeight\<close> and recomputes the projection from it, sets
  the size of the renderer to \<open>(innerWidth, innerHeight)\<close>, and \<open>Ocean.resize\<close> sets the
  uniform \<open>uResolution\<close> to \<open>(innerWidth, innerHeight)\<close>; no error is raised. The ocean
  is constructed in every state that the program reaches from the bootstrap by frames
  and resize events, so this holds for every resize event.
\<close>

theorem resize_listener:
  "(ocean_ready (app_ocean a) (app_store a) \<longrightarrow>
      (\<exists>a' m. on_resize a = Inr a' \<and> ocean_material (app_ocean a') = Some m \<and>
         aspect (app_camera a') = js_div (innerWidth (app_store a)) (innerHeight (app_store a)) \<and>
         projection_aspect (app_camera a') = aspect (app_camera a') \<and>
         canvas_size (app_renderer a') = (innerWidth (app_store a), innerHeight (app_store a)) \<and>
         uniforms (mats (app_store a') m) ''uResolution'' =
           Some (UVec2 (innerWidth (app_store a)) (innerHeight (app_store a))))) \<and>
   (\<exists>a0. run evs (main_init vs fs w0) = Inr a0 \<and> ocean_ready (app_ocean a0) (app_store a0))"
proof (intro conjI impI)
  assume "ocean_ready (app_ocean a) (app_store a)"
  from Ocean_resize_ready [OF this] obtain w1 m where
    "Ocean_resize (app_ocean a) (app_store a) = Inr w1" "ocean_material (app_ocean a) = Some m"
    "uniforms (mats w1 m) ''uResolution'' =
       Some (UVec2 (innerWidth (app_store a)) (innerHeight (app_store a)))"
    by blast
  then show "\<exists>a' m. on_resize a = Inr a' \<and> ocean_material (app_ocean a') = Some m \<and>
      aspect (app_camera a') = js_div (innerWidth (app_store a)) (innerHeight (app_store a)) \<and>
      projection_aspect (app_camera a') = aspect (app_camera a') \<and>
      canvas_size (app_renderer a') = (innerWidth (app_store a), innerHeight (app_store a)) \<and>
      uniforms (mats (app_store a') m) ''uResolution'' =
        Some (UVec2 (innerWidth (app_store a)) (innerHeight (app_store a)))"
    by (simp add: on_resize_def Let_def)
next
  show "\<exists>a0. run evs (main_init vs fs w0) = Inr a0 \<and> ocean_ready (app_ocean a0) (app_store a0)"
    by (rule run_main_init)
qed

theorem resize_listener_witness:
  "ocean_ready (app_ocean demo_app) (app_store demo_app) \<and>
   (\<exists>a' m. window_resized 1024 768 demo_app = Inr a' \<and>
      ocean_material (app_ocean a') = Some m \<and>
      aspect (app_camera a') = Num (4 / 3) \<and>
      projection_aspect (app_camera a') = Num (4 / 3) \<and>
      canvas_size (app_renderer a') = (1024, 768) \<and>
      uniforms (mats (app_store a') m) ''uResolution'' = Some (UVec2 1024 768))"
proof -
  let ?b = "demo_app\<lparr>app_store := (app_store demo_app)\<lparr>innerWidth := 1024, innerHeight := 768\<rparr>\<rparr>"
  have r: "ocean_ready (app_ocean demo_app) (app_store demo_app)"
    unfolding demo_app_def by (rule main_init_ready)
  then have rb: "ocean_ready (app_ocean ?b) (app_store ?b)"
    by (simp add: ocean_ready_window)
  have d: "js_div 1024 768 = Num (4 / 3)" by (simp add: js_div_def)
  from resize_listener [of ?b "[]" "[]" "[]" "empty_store 800 600 1"] rb obtain a' m where
    a: "on_resize ?b = Inr a'" "ocean_material (app_ocean a') = Some m"
       "aspect (app_camera a') = js_div (innerWidth (app_store ?b)) (innerHeight (app_store ?b))"
       "projection_aspect (app_camera a') = aspect (app_camera a')"
       "canvas_size (app_renderer a') = (innerWidth (app_store ?b), innerHeight (app_store ?b))"
       "uniforms (mats (app_store a') m) ''uResolution'' =
          Some (UVec2 (innerWidth (app_store ?b)) (innerHeight (app_store ?b)))"
    by blast
  have "window_resized 1024 768 demo_app = Inr a' \<and>
      ocean_material (app_ocean a') = Some m \<and>
      aspect (app_camera a') = Num (4 / 3) \<and>
      projection_aspect (app_camera a') = Num (4 / 3) \<and>
      canvas_size (app_renderer a') = (1024, 768) \<and>
      uniforms (mats (app_store a') m) ''uResolution'' = Some (UVec2 1024 768)"
    using a d by (simp add: window_resized_def)
  with r show ?thesis by blast
qed

text \<open>
  C3 (as amended). With the ocean constructed, one call of \<open>animate\<close> requests the next
  frame, reads the elapsed time \<open>t\<close> from the clock, calls \<open>ocean.update(t)\<close> and moves
  the sphere, and then calls \<open>render\<close>: the renderer sees the store in which \<open>uTime\<close> is
  \<open>t\<close>. The bootstrap drives the ocean controller only. \<open>SceneSetup.update\<close> has no
  parameter: whatever elapsed time a caller passes, the call does the same.
\<close>

theorem animate_frame_order:
  assumes "ocean_ready (app_ocean a) (app_store a)"
  shows "(\<exists>a' w1 m. Ocean_update t (app_ocean a) (app_store a) = Inr w1 \<and>
      ocean_material (app_ocean a) = Some m \<and>
      animate t a = Inr a' \<and>
      effects a' = effects a @
        [RequestAnimationFrame, GetElapsedTime t, Render (app_store a') (app_camera a)] \<and>
      app_store a' =
        w1\<lparr>objs := (objs w1)(sphere a := set_position_y (sin t * 5) (objs w1 (sphere a)))\<rparr> \<and>
      uniforms (mats (app_store a') m) ''uTime'' = Some (UNum t) \<and>
      app_ocean a' = app_ocean a \<and> app_camera a' = app_camera a) \<and>
    SceneSetup_update_call t s = SceneSetup_update_call t' s"
proof -
  from Ocean_update_ready [OF assms, of t] obtain w1 m where
    "Ocean_update t (app_ocean a) (app_store a) = Inr w1" "ocean_material (app_ocean a) = Some m"
    "uniforms (mats w1 m) ''uTime'' = Some (UNum t)"
    by blast
  then show ?thesis by (simp add: animate_def Let_def SceneSetup_update_call_def)
qed

theorem animate_frame_order_witness:
  "ocean_ready (app_ocean demo_app) (app_store demo_app) \<and>
   (\<exists>a' m. animate 0 demo_app = Inr a' \<and> ocean_material (app_ocean demo_app) = Some m \<and>
      effects a' = [RequestAnimationFrame, GetElapsedTime 0,
                    Render (app_store a') (app_camera demo_app)] \<and>
      uniforms (mats (app_store a') m) ''uTime'' = Some (UNum 0) \<and>
      position (objs (app_store a') (sphere demo_app)) = (0, 0, 0))"
proof -
  have r: "ocean_ready (app_ocean demo_app) (app_store demo_app)"
    unfolding demo_app_def by (rule main_init_ready)
  have e: "effects demo_app = []" "sphere demo_app = 1"
    by (simp_all add: demo_app_def main_init_def Ocean_new_def Ocean_init_eq new_object_def
        scene_add_def empty_store_def Let_def)
  from animate_frame_order [OF r, of 0] obtain a' w1 m where
    a: "Ocean_update 0 (app_ocean demo_app) (app_store demo_app) = Inr w1"
       "ocean_material (app_ocean demo_app) = Some m" "animate 0 demo_app = Inr a'"
       "effects a' = effects demo_app @
          [RequestAnimationFrame, GetElapsedTime 0, Render (app_store a') (app_camera demo_app)]"
       "app_store a' = w1\<lparr>objs := (objs w1)
          (sphere demo_app := set_position_y (sin 0 * 5) (objs w1 (sphere demo_app)))\<rparr>"
       "uniforms (mats (app_store a') m) ''uTime'' = Some (UNum 0)"
    by blast
  from Ocean_update_frame [OF a(1)] have "objs w1 = objs (app_store demo_app)"
    by (simp add: only_uniform_changed_def)
  then have "position (objs (app_store a') (sphere demo_app)) = (0, 0, 0)"
    using a(5) e(2)
    by (simp add: set_position_y_def demo_app_def main_init_def Ocean_new_def Ocean_init_eq
        new_object_def scene_add_def empty_store_def Let_def)
  with r a e show ?thesis by simp
qed

text \<open>
  C3 as stated fails for the water and sky controller: its \<open>update\<close> does not receive
  the elapsed time. Called at 1 s and at 2 s it gives the same result, a time uniform
  of \<open>1/60\<close>.
\<close>

theorem animate_frame_order_counterexample:
  "SceneSetup_update_call 1 fresh_setup = SceneSetup_update_call 2 fresh_setup \<and>
   map_sum id water_time (SceneSetup_update_call 2 fresh_setup) = Inr (Some (1 / 60))"
  by (simp add: SceneSetup_update_call_def SceneSetup_update_def fresh_setup_def water_time_def)

section \<open>Properties of the water and sky controller\<close>











subsection \<open>The sun direction\<close>






subsection \<open>The patched vertex shader\<close>

lemma js_replace_skip:
  "pat \<noteq> [] \<Longrightarrow> hd pat \<notin> set g \<Longrightarrow> js_replace pat rep (g @ r) = g @ js_replace pat rep r"
  by (induction g) (auto simp: prefix_def neq_Nil_conv)



lemma js_replace_absent:
  "pat \<noteq> [] \<Longrightarrow> \<not> sublist pat s \<Longrightarrow> js_replace pat rep s = s"
  by (induction s) (auto simp: sublist_Cons_right)

lemma gerstner_no_hash: "CHR ''#'' \<notin> set GERSTNER_SOURCE"
  by (simp add: GERSTNER_SOURCE_def)

lemma begin_vertex_hd: "BEGIN_VERTEX \<noteq> []" "hd BEGIN_VERTEX = CHR ''#''"
  by (simp_all add: BEGIN_VERTEX_def)

text \<open>The replacement text has no \<open>$\<close>, which \<open>replace\<close> would expand.\<close>

lemma wave_vertex_no_dollar: "CHR ''$'' \<notin> set WAVE_VERTEX"
  by (simp add: WAVE_VERTEX_def WAVE_LEAD_def BEGIN_VERTEX_def WAVE_CODE_def WAVE_LINES_def)


lemma patch_absent:
  assumes "\<not> sublist BEGIN_VERTEX v"
  shows "js_replace BEGIN_VERTEX WAVE_VERTEX (GERSTNER_SOURCE @ v) = GERSTNER_SOURCE @ v"
proof -
  have "js_replace BEGIN_VERTEX WAVE_VERTEX (GERSTNER_SOURCE @ v) =
        GERSTNER_SOURCE @ js_replace BEGIN_VERTEX WAVE_VERTEX v"
    using begin_vertex_hd gerstner_no_hash by (simp add: js_replace_skip)
  also have "js_replace BEGIN_VERTEX WAVE_VERTEX v = v"
    by (rule js_replace_absent [OF begin_vertex_hd(1) assms])
  finally show ?thesis .
qed




text \<open>The sample state \<open>compiled_setup\<close> is what the hook makes of the empty shader.\<close>

lemma compiled_setup_from_hook:
  "onBeforeCompile empty_shader fresh_setup = Inr compiled_setup"
proof -
  have "js_replace BEGIN_VERTEX WAVE_VERTEX (GERSTNER_SOURCE @ []) = GERSTNER_SOURCE @ []"
    by (rule patch_absent) (simp add: BEGIN_VERTEX_def)
  then show ?thesis
    by (simp add: onBeforeCompile_def Let_def empty_shader_def fresh_setup_def
        compiled_setup_def)
qed

end
